theory Spec2Isabelle
  imports Main "HOL-Library.Word"
begin

unbundle bit_operations_syntax

section \<open>JavaScript numbers, 32-bit operators and typed arrays\<close>

text \<open>
  The library (src/index.ts) works on JavaScript numbers. Every number that occurs is an
  integer far below \<open>2 ^ 53\<close>, so a number is modelled as an \<open>int\<close>. The bitwise
  operators \<open>|\<close>, \<open>&\<close>, \<open>^\<close>, \<open>~\<close> and \<open><<\<close> convert their operands with ToInt32 and
  give a signed 32-bit result; \<open>+\<close> and \<open>-\<close> and the comparisons are exact. An element of
  a \<open>Uint32Array\<close> is a \<open>32 word\<close>: reading it gives its unsigned value, storing a
  number reduces it modulo \<open>2 ^ 32\<close>.
\<close>

type_synonym u32 = "32 word"

definition js_or :: "int \<Rightarrow> int \<Rightarrow> int" where
  "js_or a b = sint ((word_of_int a :: u32) OR word_of_int b)"

definition js_and :: "int \<Rightarrow> int \<Rightarrow> int" where
  "js_and a b = sint ((word_of_int a :: u32) AND word_of_int b)"

definition js_xor :: "int \<Rightarrow> int \<Rightarrow> int" where
  "js_xor a b = sint ((word_of_int a :: u32) XOR word_of_int b)"

definition js_not :: "int \<Rightarrow> int" where
  "js_not a = sint (NOT (word_of_int a :: u32))"

definition js_shl :: "int \<Rightarrow> nat \<Rightarrow> int" where
  "js_shl a n = sint (push_bit (n mod 32) (word_of_int a :: u32))"

text \<open>Truthiness of a number in a condition: every number but 0.\<close>

definition truthy :: "int \<Rightarrow> bool" where
  "truthy x = (x \<noteq> 0)"

text \<open>\<open>new Uint32Array(n)\<close> is filled with zeros; \<open>a[i] = v\<close> stores \<open>v\<close> modulo \<open>2 ^ 32\<close>.\<close>

definition Uint32Array :: "nat \<Rightarrow> u32 list" where
  "Uint32Array n = replicate n 0"

definition store :: "u32 list \<Rightarrow> nat \<Rightarrow> int \<Rightarrow> u32 list" where
  "store a i v = a[i := word_of_int v]"

definition load :: "u32 list \<Rightarrow> nat \<Rightarrow> int" where
  "load a i = uint (a ! i)"

section \<open>Data model\<close>

text \<open>The interfaces \<open>Match\<close> and \<open>Region\<close>; \<open>end\<close> is exclusive.\<close>

record Match =
  start :: int
  end' :: int
  errors :: int

record Region =
  rstart :: int
  rend :: int

text \<open>
  The interface \<open>Context\<close>, with the field \<open>bMax\<close> that both scanners add to it. The
  symbols of a string are the values of \<open>charCodeAt\<close>; the code only compares them, so
  the symbol type is a parameter.
\<close>

record 'a Context =
  bMax :: nat
  P :: "u32 list"
  M :: "u32 list"
  peq :: "'a \<rightharpoonup> u32 list"
  lastRowMask :: "u32 list"

section \<open>Block transition: \<open>advanceBlock\<close>\<close>

definition advanceBlock :: "'a Context \<Rightarrow> u32 list \<Rightarrow> nat \<Rightarrow> int \<Rightarrow> int \<times> 'a Context" where
  "advanceBlock ctx peqc b hIn =
     (let pV = load (P ctx) b;
          mV = load (M ctx) b;
          eq = load peqc b;
          xV = js_or eq mV;
          eq = (if hIn < 0 then js_or eq 1 else eq);
          xH = js_or (js_xor (js_and eq pV + pV) pV) eq;
          pH = js_or mV (js_not (js_or xH pV));
          mH = js_and pV xH;
          hOut = (if truthy (js_and pH (load (lastRowMask ctx) b)) then 1
                  else if truthy (js_and mH (load (lastRowMask ctx) b)) then - 1
                  else 0);
          pH = js_shl pH 1;
          mH = js_shl mH 1;
          mH = (if hIn < 0 then js_or mH 1 else mH);
          pH = (if hIn < 0 then pH else if hIn > 0 then js_or pH 1 else pH);
          pV = js_or mH (js_not (js_or xV pH));
          mV = js_and pH xV
      in (hOut, ctx\<lparr>P := store (P ctx) b pV, M := store (M ctx) b mV\<rparr>))"

text \<open>
  The recurrence as the specification writes it (section 4.2), on 32-bit unsigned words
  with wrap-around: the words \<open>P\<close> and \<open>M\<close> of the block, the profile word, the incoming
  horizontal delta and the last-row mask give the outgoing delta and the new \<open>P\<close>, \<open>M\<close>.
\<close>

definition BlockTransition_spec :: "u32 \<Rightarrow> u32 \<Rightarrow> u32 \<Rightarrow> int \<Rightarrow> u32 \<Rightarrow> int \<times> u32 \<times> u32" where
  "BlockTransition_spec Pw Mw profileWord hIn lastRow =
     (let eq = (if hIn < 0 then profileWord OR 1 else profileWord);
          xV = profileWord OR Mw;
          xH = (((eq AND Pw) + Pw) XOR Pw) OR eq;
          pH = Mw OR NOT (xH OR Pw);
          mH = Pw AND xH;
          hOut = (if pH AND lastRow \<noteq> 0 then 1 else if mH AND lastRow \<noteq> 0 then - 1 else 0);
          pH = push_bit 1 pH;
          mH = push_bit 1 mH;
          mH = (if hIn < 0 then mH OR 1 else mH);
          pH = (if hIn < 0 then pH else if hIn > 0 then pH OR 1 else pH);
          P' = mH OR NOT (xV OR pH);
          M' = pH AND xV
      in (hOut, P', M'))"

section \<open>Strings\<close>

text \<open>
  \<open>s.charCodeAt(j)\<close> is \<open>NaN\<close> outside the string (here \<open>None\<close>); \<open>s.slice(a, b)\<close>
  counts negative arguments from the end and clamps both to the string; \<open>reverse\<close>
  reverses the code units.
\<close>

definition charCodeAt :: "'a list \<Rightarrow> int \<Rightarrow> 'a option" where
  "charCodeAt s j = (if 0 \<le> j \<and> j < int (length s) then Some (s ! nat j) else None)"

definition slice :: "'a list \<Rightarrow> int \<Rightarrow> int \<Rightarrow> 'a list" where
  "slice s a b =
     (let n = int (length s);
          from = (if a < 0 then max (n + a) 0 else min a n);
          to = (if b < 0 then max (n + b) 0 else min b n)
      in take (nat (to - from)) (drop (nat from) s))"

definition reverse :: "'a list \<Rightarrow> 'a list" where
  "reverse s = rev s"

text \<open>\<open>Math.ceil(n / w)\<close> for an integer \<open>n\<close> and the word size \<open>w = 32\<close>.\<close>

definition ceil_div_w :: "int \<Rightarrow> int" where
  "ceil_div_w n = - ((- n) div 32)"

section \<open>Profile builder of \<open>findMatchEnds\<close>\<close>

text \<open>
  The array of one symbol \<open>val\<close>. \<open>peqRow\<close> is the body of the loop over the rows \<open>r\<close>:
  \<open>peq[b] |= 1 << r\<close> where the pattern has \<open>val\<close> at \<open>b * w + r\<close>, and nothing for an
  index beyond the pattern. \<open>peqBlock\<close> is the body of the loop over the blocks \<open>b\<close>:
  \<open>peq[b] = 0\<close>, then the rows.
\<close>

definition peqRow :: "'a list \<Rightarrow> 'a \<Rightarrow> nat \<Rightarrow> nat \<Rightarrow> u32 list \<Rightarrow> u32 list" where
  "peqRow pattern val b r arr =
     (let idx = b * 32 + r
      in if idx \<ge> length pattern then arr
         else if pattern ! idx = val then store arr b (js_or (load arr b) (js_shl 1 r))
         else arr)"

definition peqBlock :: "'a list \<Rightarrow> 'a \<Rightarrow> nat \<Rightarrow> u32 list \<Rightarrow> u32 list" where
  "peqBlock pattern val b arr = fold (peqRow pattern val b) [0..<32] (store arr b 0)"

definition fillPeq :: "'a list \<Rightarrow> 'a \<Rightarrow> nat \<Rightarrow> u32 list" where
  "fillPeq pattern val bmax = fold (peqBlock pattern val) [0..<bmax + 1] (Uint32Array (bmax + 1))"

text \<open>The body of the loop over the pattern: a symbol seen before is skipped.\<close>

definition peqSymbol :: "'a list \<Rightarrow> nat \<Rightarrow> 'a \<Rightarrow> ('a \<rightharpoonup> u32 list) \<Rightarrow> ('a \<rightharpoonup> u32 list)" where
  "peqSymbol pattern bmax val m =
     (if m val \<noteq> None then m else m(val \<mapsto> fillPeq pattern val bmax))"

definition buildPeq :: "'a list \<Rightarrow> nat \<Rightarrow> ('a \<rightharpoonup> u32 list)" where
  "buildPeq pattern bmax = fold (peqSymbol pattern bmax) pattern Map.empty"

section \<open>Column scanner\<close>

text \<open>
  The first loop of a column: the blocks \<open>0..y\<close> in increasing order, the \<open>hOut\<close> of one
  block being the \<open>hIn\<close> of the next, and \<open>score[b] += carry\<close>. \<open>blocksLoop\<close> runs the
  loop body over the list of the block indices that are left.
\<close>

primrec blocksLoop ::
  "u32 list \<Rightarrow> nat list \<Rightarrow> int \<times> 'a Context \<times> u32 list \<Rightarrow> int \<times> 'a Context \<times> u32 list" where
  "blocksLoop peqc [] st = st"
| "blocksLoop peqc (b # bs) st =
     (case st of (carry, ctx, score) \<Rightarrow>
      case advanceBlock ctx peqc b carry of
        (carry, ctx) \<Rightarrow> blocksLoop peqc bs (carry, ctx, store score b (load score b + carry)))"

definition advanceBlocks ::
  "'a Context \<Rightarrow> u32 list \<Rightarrow> u32 list \<Rightarrow> nat \<Rightarrow> int \<times> 'a Context \<times> u32 list" where
  "advanceBlocks ctx peqc score y = blocksLoop peqc [0..<y + 1] (0, ctx, score)"

text \<open>\<open>while (y > 0 && score[y] >= maxErrors + w) y -= 1\<close>\<close>

fun shrink :: "u32 list \<Rightarrow> int \<Rightarrow> nat \<Rightarrow> nat" where
  "shrink score maxErrs 0 = 0"
| "shrink score maxErrs (Suc y) =
     (if load score (Suc y) \<ge> maxErrs + 32 then shrink score maxErrs y else Suc y)"

text \<open>
  The part of the loop body that \<open>findMatchEnds\<close> (lines 293-325) and
  \<open>findMatchRegions\<close> (lines 473-502) share word for word: the pass over the active
  blocks, then either the expansion of the window by one block or its shrinking.
  \<open>len\<close> is \<open>pattern.length\<close> in the first and \<open>maxPatternLen\<close> in the second.
\<close>

definition scanColumn ::
  "nat \<Rightarrow> u32 list \<Rightarrow> int \<Rightarrow> 'a Context \<times> u32 list \<times> nat \<Rightarrow> 'a Context \<times> u32 list \<times> nat" where
  "scanColumn len peqc maxErrs st =
     (case st of (ctx, score, y) \<Rightarrow>
      case advanceBlocks ctx peqc score y of (carry, ctx, score) \<Rightarrow>
        if load score y - carry \<le> maxErrs \<and> y < bMax ctx \<and>
           (truthy (js_and (load peqc (y + 1)) 1) \<or> carry < 0)
        then
          let y = y + 1;
              ctx = ctx\<lparr>P := store (P ctx) y (js_not 0), M := store (M ctx) y 0\<rparr>;
              maxBlockScore = (if y = bMax ctx then int (len mod 32) else 32)
          in case advanceBlock ctx peqc y carry of
               (hOut, ctx') \<Rightarrow>
                 (ctx', store score y (load score (y - 1) + maxBlockScore - carry + hOut), y)
        else (ctx, score, shrink score maxErrs y))"

section \<open>\<open>findMatchEnds\<close>\<close>

text \<open>
  The variables that the scan changes: the context, the scores, the last active block
  \<open>y\<close> (set anew at the start of each region), the threshold \<open>maxErrors\<close> and the
  matches found so far.
\<close>

record 'a scan_state =
  st_ctx :: "'a Context"
  st_score :: "u32 list"
  st_y :: nat
  st_maxErrors :: int
  st_matches :: "Match list"

text \<open>The body of the loop over the text index \<open>j\<close>.\<close>

definition matchEndsColumn ::
  "'a list \<Rightarrow> 'a list \<Rightarrow> u32 list \<Rightarrow> int \<Rightarrow> 'a scan_state \<Rightarrow> 'a scan_state" where
  "matchEndsColumn text pattern emptyPeq j s =
     (let peqc = (case Option.bind (charCodeAt text j) (peq (st_ctx s)) of
                    None \<Rightarrow> emptyPeq | Some a \<Rightarrow> a)
      in case scanColumn (length pattern) peqc (st_maxErrors s) (st_ctx s, st_score s, st_y s) of
           (ctx, score, y) \<Rightarrow>
             let s = s\<lparr>st_ctx := ctx, st_score := score, st_y := y\<rparr>
             in if y = bMax ctx \<and> load score y \<le> st_maxErrors s
                then s\<lparr>st_matches :=
                         (if load score y < st_maxErrors s then [] else st_matches s)
                           @ [\<lparr>start = - 1, end' = j + 1, errors = load score y\<rparr>],
                       st_maxErrors := load score y\<rparr>
                else s)"

text \<open>
  The two initialisation loops over \<open>b = 0..y\<close>, which both scanners run:
  \<open>score[b] = (b + 1) * w\<close>, and \<open>ctx.P[b] = ~0; ctx.M[b] = 0\<close>.
\<close>

definition initScoreBlock :: "nat \<Rightarrow> u32 list \<Rightarrow> u32 list" where
  "initScoreBlock b score = store score b ((int b + 1) * 32)"

definition initDeltaBlock :: "nat \<Rightarrow> 'a Context \<Rightarrow> 'a Context" where
  "initDeltaBlock b ctx = ctx\<lparr>P := store (P ctx) b (js_not 0), M := store (M ctx) b 0\<rparr>"

text \<open>The body of the loop over the regions: the reset, then the columns of the region.\<close>

definition scanRegion ::
  "'a list \<Rightarrow> 'a list \<Rightarrow> u32 list \<Rightarrow> Region \<Rightarrow> 'a scan_state \<Rightarrow> 'a scan_state" where
  "scanRegion text pattern emptyPeq region s =
     (let y = nat (max 0 (ceil_div_w (st_maxErrors s) - 1));
          score = fold initScoreBlock [0..<y + 1] (st_score s);
          score = store score (bMax (st_ctx s)) (int (length pattern));
          ctx = fold initDeltaBlock [0..<y + 1] (st_ctx s)
      in fold (matchEndsColumn text pattern emptyPeq) [rstart region..rend region - 1]
           (s\<lparr>st_ctx := ctx, st_score := score, st_y := y\<rparr>))"

definition findMatchEnds :: "'a list \<Rightarrow> 'a list \<Rightarrow> int \<Rightarrow> Region list \<Rightarrow> Match list" where
  "findMatchEnds text pattern maxErrs regions =
     (if length pattern = 0 then []
      else
        let maxErrs = min maxErrs (int (length pattern));
            bmax = nat (ceil_div_w (int (length pattern)) - 1);
            masks = replicate (bmax + 1) (word_of_int (js_shl 1 31));
            masks = store masks bmax (js_shl 1 ((length pattern - 1) mod 32));
            ctx = \<lparr>bMax = bmax, P = Uint32Array (bmax + 1), M = Uint32Array (bmax + 1),
                   peq = buildPeq pattern bmax, lastRowMask = masks\<rparr>;
            score = Uint32Array (bmax + 1);
            emptyPeq = Uint32Array (bmax + 1)
        in st_matches
             (fold (scanRegion text pattern emptyPeq) regions
                \<lparr>st_ctx = ctx, st_score = score, st_y = 0, st_maxErrors = maxErrs,
                 st_matches = []\<rparr>))"

text \<open>The default value of the parameter \<open>regions\<close>: the whole text.\<close>

definition wholeText :: "'a list \<Rightarrow> Region list" where
  "wholeText text = [\<lparr>rstart = 0, rend = int (length text)\<rparr>]"

section \<open>Match-start resolver and \<open>search\<close>\<close>

text \<open>
  \<open>closerStart\<close> is the function that \<open>reduce\<close> folds over the matches of the reversed
  search, \<open>resolveStart\<close> the function that \<open>map\<close> applies to each match.
\<close>

definition closerStart :: "Match \<Rightarrow> int \<Rightarrow> Match \<Rightarrow> int" where
  "closerStart m mn rm = (if end' m - end' rm < mn then end' m - end' rm else mn)"

definition resolveStart :: "'a list \<Rightarrow> 'a list \<Rightarrow> 'a list \<Rightarrow> Match \<Rightarrow> Match" where
  "resolveStart text pattern patRev m =
     (let minStart = max 0 (end' m - int (length pattern) - errors m);
          textRev = reverse (slice text minStart (end' m));
          startv = foldl (closerStart m) (end' m)
                     (findMatchEnds textRev patRev (errors m) (wholeText textRev))
      in \<lparr>start = startv, end' = end' m, errors = errors m\<rparr>)"

definition findMatchStarts :: "'a list \<Rightarrow> 'a list \<Rightarrow> Match list \<Rightarrow> Match list" where
  "findMatchStarts text pattern ms = map (resolveStart text pattern (reverse pattern)) ms"

definition search :: "'a list \<Rightarrow> 'a list \<Rightarrow> int \<Rightarrow> Match list" where
  "search text pattern maxErrs =
     findMatchStarts text pattern (findMatchEnds text pattern maxErrs (wholeText text))"

section \<open>Region filter: \<open>findMatchRegions\<close>\<close>

text \<open>
  The profile of the superimposed pattern. \<open>peqsPattern\<close> is the body of
  \<open>patterns.forEach\<close>: row \<open>idx\<close> matches \<open>val\<close> when the pattern has \<open>val\<close> there or
  has ended before it. The source leaves the loop over \<open>r\<close> at the first
  \<open>idx >= maxPatternLen\<close>; as \<open>idx\<close> grows with \<open>r\<close>, that is to skip every such \<open>r\<close>.
\<close>

definition peqsPattern :: "'a \<Rightarrow> nat \<Rightarrow> nat \<Rightarrow> nat \<Rightarrow> 'a list \<Rightarrow> u32 list \<Rightarrow> u32 list" where
  "peqsPattern val b r idx pattern arr =
     (if length pattern \<le> idx \<or> pattern ! idx = val
      then store arr b (js_or (load arr b) (js_shl 1 r))
      else arr)"

definition peqsRow :: "'a list list \<Rightarrow> nat \<Rightarrow> 'a \<Rightarrow> nat \<Rightarrow> nat \<Rightarrow> u32 list \<Rightarrow> u32 list" where
  "peqsRow patterns maxPatternLen val b r arr =
     (let idx = b * 32 + r
      in if idx \<ge> maxPatternLen then arr
         else fold (peqsPattern val b r idx) patterns arr)"

definition peqsBlock :: "'a list list \<Rightarrow> nat \<Rightarrow> 'a \<Rightarrow> nat \<Rightarrow> u32 list \<Rightarrow> u32 list" where
  "peqsBlock patterns maxPatternLen val b arr =
     fold (peqsRow patterns maxPatternLen val b) [0..<32] (store arr b 0)"

definition fillPeqs :: "'a list list \<Rightarrow> nat \<Rightarrow> 'a \<Rightarrow> nat \<Rightarrow> u32 list" where
  "fillPeqs patterns maxPatternLen val bmax =
     fold (peqsBlock patterns maxPatternLen val) [0..<bmax + 1] (Uint32Array (bmax + 1))"

definition peqsSymbol ::
  "'a list list \<Rightarrow> nat \<Rightarrow> nat \<Rightarrow> 'a \<Rightarrow> ('a \<rightharpoonup> u32 list) \<Rightarrow> ('a \<rightharpoonup> u32 list)" where
  "peqsSymbol patterns maxPatternLen bmax val m =
     (if m val \<noteq> None then m else m(val \<mapsto> fillPeqs patterns maxPatternLen val bmax))"

definition buildPeqs :: "'a list list \<Rightarrow> nat \<Rightarrow> nat \<Rightarrow> ('a \<rightharpoonup> u32 list)" where
  "buildPeqs patterns maxPatternLen bmax =
     fold (peqsSymbol patterns maxPatternLen bmax) (concat patterns) Map.empty"

text \<open>
  The profile of a symbol that occurs in no pattern: it matches the rows from
  \<open>minPatternLen\<close> on.
\<close>

definition emptyPeqRow :: "nat \<Rightarrow> u32 list \<Rightarrow> u32 list" where
  "emptyPeqRow i arr =
     (let b = i div 32; r = i mod 32 in store arr b (js_or (load arr b) (js_shl 1 r)))"

definition buildEmptyPeq :: "nat \<Rightarrow> nat \<Rightarrow> nat \<Rightarrow> u32 list" where
  "buildEmptyPeq minPatternLen maxPatternLen bmax =
     fold emptyPeqRow [minPatternLen..<maxPatternLen] (Uint32Array (bmax + 1))"

text \<open>Lines 511-516: the new region is merged into the last one or appended.\<close>

definition addRegion :: "Region list \<Rightarrow> int \<Rightarrow> int \<Rightarrow> Region list" where
  "addRegion regions startv endv =
     (let rl = length regions
      in if rl > 0 \<and> rend (regions ! (rl - 1)) \<ge> startv
         then regions[rl - 1 := (regions ! (rl - 1))\<lparr>rend := endv\<rparr>]
         else regions @ [\<lparr>rstart = startv, rend = endv\<rparr>])"

record 'a region_state =
  rs_ctx :: "'a Context"
  rs_score :: "u32 list"
  rs_y :: nat
  rs_regions :: "Region list"

text \<open>The body of the loop over the text index \<open>j\<close> in \<open>findMatchRegions\<close>.\<close>

definition regionsColumn ::
  "'a list \<Rightarrow> nat \<Rightarrow> u32 list \<Rightarrow> int \<Rightarrow> nat \<Rightarrow> 'a region_state \<Rightarrow> 'a region_state" where
  "regionsColumn text maxPatternLen emptyPeq maxErrs j s =
     (let peqc = (case Option.bind (charCodeAt text (int j)) (peq (rs_ctx s)) of
                    None \<Rightarrow> emptyPeq | Some a \<Rightarrow> a)
      in case scanColumn maxPatternLen peqc maxErrs (rs_ctx s, rs_score s, rs_y s) of
           (ctx, score, y) \<Rightarrow>
             let s = s\<lparr>rs_ctx := ctx, rs_score := score, rs_y := y\<rparr>
             in if y = bMax ctx \<and> load score y \<le> maxErrs
                then
                  let startv = max 0 (int j + 1 - int maxPatternLen - load score y);
                      endv = int j + 1
                  in s\<lparr>rs_regions := addRegion (rs_regions s) startv endv\<rparr>
                else s)"

definition findMatchRegions :: "'a list \<Rightarrow> 'a list list \<Rightarrow> int \<Rightarrow> Region list" where
  "findMatchRegions text patterns maxErrs =
     (if length patterns = 0 then []
      else
        let lens = map length patterns;
            minPatternLen = fold min (tl lens) (hd lens);
            maxPatternLen = fold max (tl lens) (hd lens);
            maxErrs = min maxErrs (int maxPatternLen);
            bmax = nat (ceil_div_w (int maxPatternLen) - 1);
            masks = replicate (bmax + 1) (word_of_int (js_shl 1 31));
            masks = store masks bmax (js_shl 1 ((maxPatternLen - 1) mod 32));
            ctx = \<lparr>bMax = bmax, P = Uint32Array (bmax + 1), M = Uint32Array (bmax + 1),
                   peq = buildPeqs patterns maxPatternLen bmax, lastRowMask = masks\<rparr>;
            emptyPeq = buildEmptyPeq minPatternLen maxPatternLen bmax;
            y = nat (max 0 (ceil_div_w maxErrs - 1));
            score = fold initScoreBlock [0..<y + 1] (Uint32Array (bmax + 1));
            score = store score bmax (int maxPatternLen);
            ctx = fold initDeltaBlock [0..<y + 1] ctx
        in rs_regions
             (fold (regionsColumn text maxPatternLen emptyPeq maxErrs) [0..<length text]
                \<lparr>rs_ctx = ctx, rs_score = score, rs_y = y, rs_regions = []\<rparr>))"

section \<open>\<open>multiSearch\<close>\<close>

record 'a PatternConfig =
  pattern :: "'a list"
  maxErrors :: int

text \<open>The result is the array of the match lists with the property \<open>regions\<close>.\<close>

record MultiSearchResult =
  results :: "Match list list"
  regions :: "Region list"

text \<open>
  \<open>moreErrors\<close> is the function that \<open>reduce\<close> folds over the configurations,
  \<open>searchRegions\<close> the function that \<open>map\<close> applies to each of them.
\<close>

definition moreErrors :: "int \<Rightarrow> 'a PatternConfig \<Rightarrow> int" where
  "moreErrors n p = max (maxErrors p) n"

definition searchRegions :: "'a list \<Rightarrow> Region list \<Rightarrow> 'a PatternConfig \<Rightarrow> Match list" where
  "searchRegions text rs p =
     findMatchStarts text (pattern p) (findMatchEnds text (pattern p) (maxErrors p) rs)"

definition multiSearch :: "'a list \<Rightarrow> 'a PatternConfig list \<Rightarrow> MultiSearchResult" where
  "multiSearch text patterns =
     (let maxErrorCount = foldl moreErrors 0 patterns;
          rs = findMatchRegions text (map pattern patterns) maxErrorCount
      in \<lparr>results = map (searchRegions text rs) patterns, regions = rs\<rparr>)"

section \<open>Reference notions of the specification\<close>

text \<open>
  The unit-cost edit distance (insert, delete, substitute) that the specification uses as
  its reference, by the textbook recursion.
\<close>

fun editDistance :: "'a list \<Rightarrow> 'a list \<Rightarrow> nat" where
  "editDistance [] ys = length ys"
| "editDistance (x # xs) [] = Suc (length xs)"
| "editDistance (x # xs) (y # ys) =
     min (min (editDistance xs (y # ys) + 1) (editDistance (x # xs) ys + 1))
         (editDistance xs ys + (if x = y then 0 else 1))"

section \<open>The block transition refines the specified recurrence\<close>

lemma sint_eq_0_u32: "sint (w :: u32) = 0 \<longleftrightarrow> w = 0"
  by (simp add: signed_eq_0_iff)

lemma word_of_int_sint_plus_uint:
  "(word_of_int (sint (a :: u32) + uint (b :: u32)) :: u32) = a + b"
  by simp

text \<open>
  C5: \<open>advanceBlock\<close> is a pure step. From the block's \<open>P\<close> and \<open>M\<close> words, the profile
  word of the current text symbol, \<open>hIn\<close> and the block's last-row mask it computes the
  word-parallel recurrence of section 4.2 on 32-bit unsigned words with wrap-around,
  returns the \<open>hOut\<close> of that recurrence and replaces \<open>P[b]\<close> and \<open>M[b]\<close> by its new words.
\<close>

theorem advanceBlock_refines_spec:
  "advanceBlock ctx peqc b hIn =
     (case BlockTransition_spec (P ctx ! b) (M ctx ! b) (peqc ! b) hIn (lastRowMask ctx ! b) of
        (hOut, P', M') \<Rightarrow> (hOut, ctx\<lparr>P := (P ctx)[b := P'], M := (M ctx)[b := M']\<rparr>))"
  by (simp add: advanceBlock_def BlockTransition_spec_def Let_def js_or_def js_and_def
      js_xor_def js_not_def js_shl_def truthy_def store_def load_def sint_eq_0_u32)

end
